theory Spec2Isabelle
  imports Complex_Main "HOL-Library.Word"
begin

unbundle bit_operations_syntax

section \<open>JavaScript values used by the component\<close>

text \<open>
  A JavaScript string is a sequence of UTF-16 code units. \<open>js\<close> turns an ASCII literal
  of the source into such a sequence.
\<close>

type_synonym js_string = "16 word list"

definition js :: "string \<Rightarrow> js_string" where
  "js cs = map of_char cs"

text \<open>
  \<open>String.prototype.trim\<close> removes the code units that ECMAScript calls WhiteSpace or
  LineTerminator from both ends of the string.
\<close>

definition isWhiteSpace :: "16 word \<Rightarrow> bool" where
  "isWhiteSpace c =
     (c = 0x9 \<or> c = 0xA \<or> c = 0xB \<or> c = 0xC \<or> c = 0xD \<or> c = 0x20 \<or> c = 0xA0 \<or>
      c = 0x1680 \<or> (0x2000 \<le> c \<and> c \<le> 0x200A) \<or> c = 0x2028 \<or> c = 0x2029 \<or>
      c = 0x202F \<or> c = 0x205F \<or> c = 0x3000 \<or> c = 0xFEFF)"

definition trim :: "js_string \<Rightarrow> js_string" where
  "trim s = rev (dropWhile isWhiteSpace (rev (dropWhile isWhiteSpace s)))"

text \<open>
  An expression that either throws an \<open>Error\<close> (kept by its \<open>message\<close>) or gives a value.
\<close>

datatype 'a attempt = Throws js_string | Gives 'a

section \<open>PCM conversion of a captured block (\<open>onaudioprocess\<close>)\<close>

text \<open>
  Storing a number into an \<open>Int16Array\<close> applies ECMAScript's \<open>ToInt16\<close>: the number is
  truncated towards zero and taken modulo \<open>2^16\<close> into the signed range. Samples are
  modelled as reals: a \<open>Float32Array\<close> element times 32768 is exact in double precision,
  so no rounding happens before the truncation.
\<close>

definition js_trunc :: "real \<Rightarrow> int" where
  "js_trunc x = (if x < 0 then - \<lfloor>- x\<rfloor> else \<lfloor>x\<rfloor>)"

definition ToInt16 :: "real \<Rightarrow> 16 word" where
  "ToInt16 x = word_of_int (js_trunc x)"

text \<open>
  \<^verbatim>\<open>for (let i = 0; i < l; i++) { int16[i] = inputData[i] * 32768; }\<close>
\<close>

fun pcm_loop :: "real list \<Rightarrow> 16 word list" where
  "pcm_loop [] = []"
| "pcm_loop (x # xs) = ToInt16 (x * 32768) # pcm_loop xs"

text \<open>
  \<open>new Uint8Array(int16.buffer)\<close>: the bytes of the samples, low byte first (typed arrays
  use the platform's byte order, little-endian on every browser platform).
\<close>

fun Uint8Array :: "16 word list \<Rightarrow> 8 word list" where
  "Uint8Array [] = []"
| "Uint8Array (w # ws) = ucast w # ucast (drop_bit 8 w) # Uint8Array ws"

text \<open>
  The payload of the outbound blob: \<open>encode(new Uint8Array(int16.buffer))\<close>. The text
  framing \<open>encode\<close> lives in \<open>utils/audio\<close>, outside the sources at hand, and is a
  parameter.
\<close>

definition toTransportEncoding :: "(8 word list \<Rightarrow> js_string) \<Rightarrow> real list \<Rightarrow> js_string" where
  "toTransportEncoding encode inputData = encode (Uint8Array (pcm_loop inputData))"

section \<open>Decoding side of the codec\<close>

text \<open>
  Modelled from the spec: \<open>fromTransportEncoding\<close>, that is \<open>decode\<close> followed by the
  sample conversion of \<open>decodeAudioData\<close>; both live in \<open>utils/audio\<close>, which is not among
  the sources. The spec (4.1): inbound chunks are the inverse of the outbound encoding;
  the raw bytes are reinterpreted as 16-bit little-endian samples and rescaled to floats in
  [-1,1]; an odd byte count fails with \<open>CodecError\<close>. The text framing \<open>decode\<close> is a
  parameter, as \<open>encode\<close> is.
\<close>

datatype codec_error = CodecError

fun Int16Array :: "8 word list \<Rightarrow> 16 word list" where
  "Int16Array (lo # hi # bs) = (ucast lo OR push_bit 8 (ucast hi)) # Int16Array bs"
| "Int16Array bs = []"

definition fromTransportEncoding ::
    "(js_string \<Rightarrow> 8 word list) \<Rightarrow> js_string \<Rightarrow> codec_error + real list" where
  "fromTransportEncoding decode data =
     (let bytes = decode data in
      if odd (length bytes) then Inl CodecError
      else Inr (map (\<lambda>w. real_of_int (sint w) / 32768) (Int16Array bytes)))"

text \<open>
  A concrete text framing for closed examples: one code unit per byte, the binary string
  that \<open>String.fromCharCode\<close> builds.
\<close>

definition binary_string :: "8 word list \<Rightarrow> js_string" where
  "binary_string bs = map ucast bs"

definition binary_bytes :: "js_string \<Rightarrow> 8 word list" where
  "binary_bytes s = map ucast s"

section \<open>\<open>types.ts\<close>\<close>

datatype Speaker = You | Teacher

record TranscriptEntry =
  speaker :: Speaker
  text' :: js_string

datatype Status = Idle | Connecting | Listening | Speaking | Error

section \<open>The state of the \<open>App\<close> component\<close>

text \<open>
  The browser objects the component holds (media stream, audio contexts, script
  processor, buffer sources, session) are named by numbers. Every call the component makes
  on one of them is appended to the log \<open>calls\<close>, in program order. Writes to the
  console are not recorded.
\<close>

datatype call =
    SourceStart nat real
  | SourceStop nat
  | TracksStop nat
  | Disconnect nat
  | ContextClose nat
  | SessionClose nat
  | SendRealtimeInput nat js_string

text \<open>
  The session promise, by the way it settles: \<open>await\<close> and \<open>then\<close> continue with the
  session, or the promise rejects.
\<close>

datatype promise = Resolves nat | Rejects

text \<open>
  \<open>status\<close>, \<open>transcript\<close> and \<open>errorMessage\<close> are the React state; the fields ending in
  \<open>Ref\<close> are the \<open>useRef\<close> cells. \<open>closedContexts\<close> holds the audio contexts whose
  \<open>state\<close> is \<open>'closed'\<close>; \<open>allocated\<close> counts the buffer sources created so far, so
  that \<open>createBufferSource()\<close> returns a new object each time.
\<close>

record app =
  status :: Status
  transcript :: "TranscriptEntry list"
  errorMessage :: js_string
  sessionPromiseRef :: "promise option"
  inputAudioContextRef :: "nat option"
  outputAudioContextRef :: "nat option"
  mediaStreamRef :: "nat option"
  scriptProcessorRef :: "nat option"
  sourcesRef :: "nat list"
  nextStartTimeRef :: real
  currentInputTranscriptionRef :: js_string
  currentOutputTranscriptionRef :: js_string
  closedContexts :: "nat list"
  allocated :: nat
  calls :: "call list"

definition initial :: app where
  "initial = \<lparr> status = Idle, transcript = [], errorMessage = [],
     sessionPromiseRef = None, inputAudioContextRef = None, outputAudioContextRef = None,
     mediaStreamRef = None, scriptProcessorRef = None, sourcesRef = [],
     nextStartTimeRef = 0, currentInputTranscriptionRef = [],
     currentOutputTranscriptionRef = [], closedContexts = [], allocated = 0, calls = [] \<rparr>"

text \<open>
  A handler either runs to its end or stops at a thrown exception (an \<open>async\<close> handler's
  promise rejects); the writes made before the exception stay.
\<close>

datatype completion = Returned app | Rejected app

fun state_of :: "completion \<Rightarrow> app" where
  "state_of (Returned s) = s"
| "state_of (Rejected s) = s"

text \<open>
  The event loop is single-threaded: handlers run one at a time. \<open>onmessage\<close> is taken
  with its \<open>await\<close> of the decoder as one step. \<open>stopConversation\<close> is split at its
  \<open>await\<close>, since another call of it can start while the first is suspended there.

  Numbers are IEEE 754 doubles. Every finite double is a real number, and \<open>Math.max\<close>
  and the comparisons are exact on doubles, so the clock, the durations and
  \<open>nextStartTimeRef\<close> are reals. The addition \<open>+=\<close> rounds its result: it is a
  parameter \<open>add\<close> of the handlers, about which a theorem assumes only what it states.
\<close>

section \<open>Playback and cleanup\<close>

text \<open>
  \<open>Set.add\<close> and \<open>Set.delete\<close> on \<open>sourcesRef.current\<close>; a JavaScript \<open>Set\<close> iterates in
  insertion order.
\<close>

definition set_add :: "nat \<Rightarrow> nat list \<Rightarrow> nat list" where
  "set_add x xs = (if x \<in> set xs then xs else xs @ [x])"

definition set_delete :: "nat \<Rightarrow> nat list \<Rightarrow> nat list" where
  "set_delete x xs = removeAll x xs"

text \<open>
  \<^verbatim>\<open>for (const source of sourcesRef.current.values()) { source.stop(); sourcesRef.current.delete(source); }\<close>
  The first argument is what the iterator still has to visit. The enclosing test
  \<open>if (sourcesRef.current)\<close> always succeeds, the cell being initialised with a \<open>Set\<close>
  and never reassigned.
\<close>

fun stop_each :: "nat list \<Rightarrow> app \<Rightarrow> app" where
  "stop_each [] s = s"
| "stop_each (source # rest) s =
     stop_each rest (s\<lparr> calls := calls s @ [SourceStop source],
                         sourcesRef := set_delete source (sourcesRef s) \<rparr>)"

definition stopAllPlayback :: "app \<Rightarrow> app" where
  "stopAllPlayback s = (stop_each (sourcesRef s) s)\<lparr> nextStartTimeRef := 0 \<rparr>"

definition close_context :: "nat option \<Rightarrow> app \<Rightarrow> app" where
  "close_context ref s =
     (case ref of
        None \<Rightarrow> s
      | Some c \<Rightarrow>
          if c \<in> set (closedContexts s) then s
          else s\<lparr> calls := calls s @ [ContextClose c],
                   closedContexts := c # closedContexts s \<rparr>)"

definition cleanUpAudio :: "app \<Rightarrow> app" where
  "cleanUpAudio s =
     (let s1 = stopAllPlayback s;
          s2 = (case mediaStreamRef s1 of
                  None \<Rightarrow> s1
                | Some stream \<Rightarrow> s1\<lparr> calls := calls s1 @ [TracksStop stream] \<rparr>);
          s3 = s2\<lparr> mediaStreamRef := None \<rparr>;
          s4 = (case scriptProcessorRef s3 of
                  None \<Rightarrow> s3
                | Some p \<Rightarrow> s3\<lparr> calls := calls s3 @ [Disconnect p],
                                   scriptProcessorRef := None \<rparr>);
          s5 = (close_context (inputAudioContextRef s4) s4)\<lparr> inputAudioContextRef := None \<rparr>;
          s6 = (close_context (outputAudioContextRef s5) s5)\<lparr> outputAudioContextRef := None \<rparr>
      in s6)"

text \<open>
  \<open>stopConversation\<close> is an \<open>async\<close> function. A call runs synchronously up to its
  \<open>await\<close>: it sets the status and, when \<open>sessionPromiseRef.current\<close> is set, suspends on
  that promise; with no promise recorded it runs the cleanup at once and is done.
  \<open>stopConversation_call\<close> is this synchronous part, with the promise the call is
  suspended on, if any.
\<close>

definition stopConversation_call :: "app \<Rightarrow> app \<times> promise option" where
  "stopConversation_call s =
     (let s1 = s\<lparr> status := Idle \<rparr> in
      case sessionPromiseRef s1 of
        None \<Rightarrow> (cleanUpAudio s1, None)
      | Some p \<Rightarrow> (s1, Some p))"

text \<open>
  The rest of a suspended call, run when the promise has settled: the \<open>try\<close> block closes
  the session, or the rejection is caught and logged to the console; then the reference
  is cleared and the cleanup runs. The state is the one at the time of resumption.
\<close>

definition stopConversation_resume :: "promise \<Rightarrow> app \<Rightarrow> app" where
  "stopConversation_resume p s =
     (let s2 = (case p of
                  Resolves session \<Rightarrow> s\<lparr> calls := calls s @ [SessionClose session] \<rparr>
                | Rejects \<Rightarrow> s)
               \<lparr> sessionPromiseRef := None \<rparr>
      in cleanUpAudio s2)"

fun resume :: "promise option \<Rightarrow> app \<Rightarrow> app" where
  "resume None s = s"
| "resume (Some p) s = stopConversation_resume p s"

text \<open>One call, with nothing else run between its suspension and its resumption.\<close>

definition stopConversation :: "app \<Rightarrow> app" where
  "stopConversation s =
     (case stopConversation_call s of (s1, awaited) \<Rightarrow> resume awaited s1)"

text \<open>
  \<open>stopConversation(); stopConversation();\<close> two calls in succession: the second call's
  synchronous part runs while the first is suspended; the continuations then run in the
  order of the calls.
\<close>

definition stopConversation_twice :: "app \<Rightarrow> app" where
  "stopConversation_twice s =
     (case stopConversation_call s of
        (s1, first) \<Rightarrow>
          (case stopConversation_call s1 of
             (s2, second) \<Rightarrow> resume second (resume first s2)))"

section \<open>\<open>startConversation\<close> and the session callbacks\<close>

text \<open>
  What the environment answers during one \<open>startConversation\<close>, step by step:
  \<open>getUserMedia\<close> (the stream), \<open>new GoogleGenAI\<close>, the two \<open>new AudioContext\<close> and
  \<open>ai.live.connect\<close> (the session promise). Each step can throw.
\<close>

record start_env =
  getUserMedia :: "nat attempt"
  newGoogleGenAI :: "unit attempt"
  newInputAudioContext :: "nat attempt"
  newOutputAudioContext :: "nat attempt"
  connect :: "promise attempt"

text \<open>The \<open>catch\<close> block of \<open>startConversation\<close>.\<close>

definition start_catch :: "js_string \<Rightarrow> app \<Rightarrow> app" where
  "start_catch message s =
     s\<lparr> errorMessage :=
           js ''Failed to start: '' @ message @ js ''. Make sure microphone access is allowed.'',
         status := Error \<rparr>"

definition startConversation :: "start_env \<Rightarrow> app \<Rightarrow> app" where
  "startConversation env s =
     (let s0 = s\<lparr> transcript := [], errorMessage := [], status := Connecting \<rparr> in
      case getUserMedia env of
        Throws e \<Rightarrow> start_catch e s0
      | Gives stream \<Rightarrow>
          let s1 = s0\<lparr> mediaStreamRef := Some stream \<rparr> in
          (case newGoogleGenAI env of
             Throws e \<Rightarrow> start_catch e s1
           | Gives ai \<Rightarrow>
               (case newInputAudioContext env of
                  Throws e \<Rightarrow> start_catch e s1
                | Gives ic \<Rightarrow>
                    let s2 = s1\<lparr> inputAudioContextRef := Some ic \<rparr> in
                    (case newOutputAudioContext env of
                       Throws e \<Rightarrow> start_catch e s2
                     | Gives oc \<Rightarrow>
                         let s3 = s2\<lparr> outputAudioContextRef := Some oc \<rparr> in
                         (case connect env of
                            Throws e \<Rightarrow> start_catch e s3
                          | Gives sessionPromise \<Rightarrow>
                              s3\<lparr> sessionPromiseRef := Some sessionPromise \<rparr>)))))"

text \<open>
  \<open>onopen\<close>: \<open>inputAudioContextRef.current!\<close> is dereferenced, which throws a \<open>TypeError\<close>
  when the reference is null. The argument is the script processor the context creates.
\<close>

definition onopen :: "nat \<Rightarrow> app \<Rightarrow> completion" where
  "onopen scriptProcessor s =
     (let s1 = s\<lparr> status := Listening \<rparr> in
      case inputAudioContextRef s1 of
        None \<Rightarrow> Rejected s1
      | Some ic \<Rightarrow> Returned (s1\<lparr> scriptProcessorRef := Some scriptProcessor \<rparr>))"

text \<open>
  \<open>onaudioprocess\<close>: the block is converted and sent through the session promise that the
  enclosing \<open>startConversation\<close> holds in a local constant.
\<close>

definition onaudioprocess ::
    "(8 word list \<Rightarrow> js_string) \<Rightarrow> promise \<Rightarrow> real list \<Rightarrow> app \<Rightarrow> app" where
  "onaudioprocess encode sessionPromise inputData s =
     (case sessionPromise of
        Resolves session \<Rightarrow>
          s\<lparr> calls := calls s @ [SendRealtimeInput session (toTransportEncoding encode inputData)] \<rparr>
      | Rejects \<Rightarrow> s)"

text \<open>
  The value of \<open>message.serverContent?.modelTurn?.parts[0]?.inlineData?.data\<close>:
  \<open>undefined\<close> when a link of the optional chain is missing, a \<open>TypeError\<close> when
  \<open>modelTurn\<close> is there without \<open>parts\<close>, or the base64 string. A transcription that
  is present may lack its \<open>text\<close>.
\<close>

datatype inlineData = Undefined | NoParts | Data js_string

record message =
  audioData :: inlineData
  inputTranscription :: "js_string option option"
  outputTranscription :: "js_string option option"
  turnComplete :: bool
  interrupted :: bool

text \<open>The listener that \<open>onmessage\<close> attaches to each buffer source for \<open>'ended'\<close>.\<close>

definition ended :: "nat \<Rightarrow> app \<Rightarrow> app" where
  "ended source s =
     (let s1 = s\<lparr> sourcesRef := set_delete source (sourcesRef s) \<rparr> in
      if length (sourcesRef s1) = 0 then s1\<lparr> status := Listening \<rparr> else s1)"

text \<open>
  The audio branch of \<open>onmessage\<close>. \<open>decodeAudioData(decode(audioData), ...)\<close> is code of
  \<open>utils/audio\<close>; the parameter \<open>decodeAudioData\<close> stands for the composition and gives
  the \<open>duration\<close> of the buffer it builds, or throws. \<open>currentTime\<close> is the reading of
  \<open>outputAudioContext.currentTime\<close>. An empty string is falsy. \<open>add\<close> is the double
  addition of \<open>nextStartTimeRef.current += audioBuffer.duration\<close>.
\<close>

definition onmessage_audio ::
    "(real \<Rightarrow> real \<Rightarrow> real) \<Rightarrow> (js_string \<Rightarrow> real attempt) \<Rightarrow> real \<Rightarrow> message \<Rightarrow> app
       \<Rightarrow> completion" where
  "onmessage_audio add decodeAudioData currentTime m s =
     (case audioData m of
        NoParts \<Rightarrow> Rejected s
      | Undefined \<Rightarrow> Returned s
      | Data d \<Rightarrow>
          if d = [] then Returned s
          else
            let s1 = s\<lparr> status := Speaking \<rparr> in
            (case outputAudioContextRef s1 of
               None \<Rightarrow> Returned s1
             | Some outputAudioContext \<Rightarrow>
                 let s2 = s1\<lparr> nextStartTimeRef := max (nextStartTimeRef s1) currentTime \<rparr> in
                 (case decodeAudioData d of
                    Throws e \<Rightarrow> Rejected s2
                  | Gives duration \<Rightarrow>
                      let source = allocated s2;
                          s3 = s2\<lparr> allocated := Suc source,
                                   calls := calls s2 @ [SourceStart source (nextStartTimeRef s2)] \<rparr>;
                          s4 = s3\<lparr> nextStartTimeRef := add (nextStartTimeRef s3) duration \<rparr>
                      in Returned (s4\<lparr> sourcesRef := set_add source (sourcesRef s4) \<rparr>))))"

text \<open>\<open>+= transcription.text\<close>: a missing \<open>text\<close> appends the string \<open>undefined\<close>.\<close>

definition text_of :: "js_string option \<Rightarrow> js_string" where
  "text_of t = (case t of None \<Rightarrow> js ''undefined'' | Some x \<Rightarrow> x)"

definition onmessage_transcriptions :: "message \<Rightarrow> app \<Rightarrow> app" where
  "onmessage_transcriptions m s =
     (let s1 = (case inputTranscription m of
                  None \<Rightarrow> s
                | Some t \<Rightarrow> s\<lparr> currentInputTranscriptionRef :=
                                   currentInputTranscriptionRef s @ text_of t \<rparr>);
          s2 = (case outputTranscription m of
                  None \<Rightarrow> s1
                | Some t \<Rightarrow> s1\<lparr> currentOutputTranscriptionRef :=
                                    currentOutputTranscriptionRef s1 @ text_of t \<rparr>)
      in s2)"

text \<open>The body of \<open>if (message.serverContent?.turnComplete)\<close>.\<close>

definition onmessage_turnComplete :: "app \<Rightarrow> app" where
  "onmessage_turnComplete s =
     (let fullInput = trim (currentInputTranscriptionRef s);
          fullOutput = trim (currentOutputTranscriptionRef s);
          s1 = (if fullInput \<noteq> []
                then s\<lparr> transcript := transcript s @ [\<lparr> speaker = You, text' = fullInput \<rparr>] \<rparr>
                else s);
          s2 = (if fullOutput \<noteq> []
                then s1\<lparr> transcript := transcript s1 @ [\<lparr> speaker = Teacher, text' = fullOutput \<rparr>] \<rparr>
                else s1)
      in s2\<lparr> currentInputTranscriptionRef := [], currentOutputTranscriptionRef := [] \<rparr>)"

definition onmessage ::
    "(real \<Rightarrow> real \<Rightarrow> real) \<Rightarrow> (js_string \<Rightarrow> real attempt) \<Rightarrow> real \<Rightarrow> message \<Rightarrow> app
       \<Rightarrow> completion" where
  "onmessage add decodeAudioData currentTime m s =
     (case onmessage_audio add decodeAudioData currentTime m s of
        Rejected s' \<Rightarrow> Rejected s'
      | Returned s1 \<Rightarrow>
          let s2 = onmessage_transcriptions m s1;
              s3 = (if turnComplete m then onmessage_turnComplete s2 else s2);
              s4 = (if interrupted m then stopAllPlayback s3 else s3)
          in Returned s4)"

definition onerror :: "js_string \<Rightarrow> app \<Rightarrow> app" where
  "onerror message s =
     stopConversation
       (s\<lparr> errorMessage := js ''An error occurred: '' @ message @ js ''. Please try again.'',
           status := Error \<rparr>)"

text \<open>
  \<open>onclose\<close> tests the \<open>status\<close> that the enclosing \<open>startConversation\<close> closed over, not
  the current one; it is the first argument.
\<close>

definition onclose :: "Status \<Rightarrow> app \<Rightarrow> app" where
  "onclose closureStatus s =
     (let s1 = cleanUpAudio s in
      if closureStatus \<noteq> Idle then s1\<lparr> status := Idle \<rparr> else s1)"

section \<open>Runs of a session\<close>

text \<open>
  The events that reach the component while a session is live: the transport opens, the
  microphone delivers a block, a server message arrives (with the clock reading at that
  moment), a buffer source reports that its playback ended.
\<close>

datatype event =
    Open nat
  | AudioProcess promise "real list"
  | Message real message
  | Ended nat

fun deliver ::
    "(real \<Rightarrow> real \<Rightarrow> real) \<Rightarrow> (8 word list \<Rightarrow> js_string) \<Rightarrow> (js_string \<Rightarrow> real attempt)
       \<Rightarrow> event \<Rightarrow> app \<Rightarrow> app" where
  "deliver add encode decodeAudioData (Open p) s = state_of (onopen p s)"
| "deliver add encode decodeAudioData (AudioProcess sp inputData) s =
     onaudioprocess encode sp inputData s"
| "deliver add encode decodeAudioData (Message currentTime m) s =
     state_of (onmessage add decodeAudioData currentTime m s)"
| "deliver add encode decodeAudioData (Ended source) s = ended source s"

fun run ::
    "(real \<Rightarrow> real \<Rightarrow> real) \<Rightarrow> (8 word list \<Rightarrow> js_string) \<Rightarrow> (js_string \<Rightarrow> real attempt)
       \<Rightarrow> event list \<Rightarrow> app \<Rightarrow> app" where
  "run add encode decodeAudioData [] s = s"
| "run add encode decodeAudioData (e # es) s =
     run add encode decodeAudioData es (deliver add encode decodeAudioData e s)"

fun interrupts :: "event \<Rightarrow> bool" where
  "interrupts (Message currentTime m) = interrupted m"
| "interrupts e = False"

text \<open>
  A server message with no content, from which the messages of the examples are built by
  setting fields; \<open>chunk\<close> carries one audio chunk and nothing else.
\<close>

definition no_content :: message where
  "no_content = \<lparr> audioData = Undefined, inputTranscription = None, outputTranscription = None,
                  turnComplete = False, interrupted = False \<rparr>"

definition chunk :: "js_string \<Rightarrow> message" where
  "chunk d = no_content\<lparr> audioData := Data d \<rparr>"

text \<open>
  A session that started well, for the closed examples: stream 0, audio contexts 1 and
  2, session 4, script processor 3; \<open>one_second\<close> decodes every chunk to a buffer of
  one second. The clock readings and durations of the examples are small integers and
  halves; double addition is exact on them, and the examples take \<open>(+)\<close> for \<open>add\<close>.
\<close>

definition good_env :: start_env where
  "good_env = \<lparr> getUserMedia = Gives 0, newGoogleGenAI = Gives (),
                newInputAudioContext = Gives 1, newOutputAudioContext = Gives 2,
                connect = Gives (Resolves 4) \<rparr>"

definition listening_state :: app where
  "listening_state = state_of (onopen 3 (startConversation good_env initial))"

definition one_second :: "js_string \<Rightarrow> real attempt" where
  "one_second d = Gives 1"

text \<open>A decoder that rejects every payload.\<close>

definition malformed :: "js_string \<Rightarrow> real attempt" where
  "malformed d = Throws (js ''RangeError'')"

definition speaking_state :: app where
  "speaking_state =
     state_of (onmessage (+) one_second 5 (chunk (js ''AAAA'')) listening_state)"






section \<open>Properties\<close>

subsection \<open>Facts about the loops and the cleanup\<close>

lemma filter_removeAll_notin:
  "filter (\<lambda>y. y \<notin> set xs) (removeAll x ys) = filter (\<lambda>y. y \<notin> set (x # xs)) ys"
  by (induction ys) auto

lemma stop_each_eq:
  "stop_each xs s = s\<lparr> calls := calls s @ map SourceStop xs,
                        sourcesRef := filter (\<lambda>y. y \<notin> set xs) (sourcesRef s) \<rparr>"
proof (induction xs arbitrary: s)
  case Nil
  show ?case by simp
next
  case (Cons x xs)
  show ?case
    by (simp add: Cons.IH set_delete_def filter_removeAll_notin del: set_simps)
qed

lemma stopAllPlayback_eq:
  "stopAllPlayback s =
     s\<lparr> calls := calls s @ map SourceStop (sourcesRef s), sourcesRef := [],
         nextStartTimeRef := 0 \<rparr>"
proof -
  have "filter (\<lambda>y. y \<notin> set (sourcesRef s)) (sourcesRef s) = []"
    by (simp add: filter_empty_conv)
  then show ?thesis
    by (simp add: stopAllPlayback_def stop_each_eq)
qed

lemma cleanUpAudio_released:
  "sourcesRef (cleanUpAudio s) = [] \<and> nextStartTimeRef (cleanUpAudio s) = 0
   \<and> mediaStreamRef (cleanUpAudio s) = None \<and> scriptProcessorRef (cleanUpAudio s) = None
   \<and> inputAudioContextRef (cleanUpAudio s) = None
   \<and> outputAudioContextRef (cleanUpAudio s) = None
   \<and> status (cleanUpAudio s) = status s
   \<and> sessionPromiseRef (cleanUpAudio s) = sessionPromiseRef s"
  by (simp add: cleanUpAudio_def stopAllPlayback_eq close_context_def Let_def
      split: option.splits)

lemma cleanUpAudio_idle:
  assumes "sourcesRef s = []" "nextStartTimeRef s = 0" "mediaStreamRef s = None"
    "scriptProcessorRef s = None" "inputAudioContextRef s = None"
    "outputAudioContextRef s = None"
  shows "cleanUpAudio s = s"
  using assms
  by (cases s) (simp add: cleanUpAudio_def stopAllPlayback_eq close_context_def Let_def)

lemma stopConversation_released:
  "status (stopConversation s) = Idle \<and> sessionPromiseRef (stopConversation s) = None
   \<and> sourcesRef (stopConversation s) = [] \<and> nextStartTimeRef (stopConversation s) = 0
   \<and> mediaStreamRef (stopConversation s) = None
   \<and> scriptProcessorRef (stopConversation s) = None
   \<and> inputAudioContextRef (stopConversation s) = None
   \<and> outputAudioContextRef (stopConversation s) = None"
  by (simp add: stopConversation_def stopConversation_call_def stopConversation_resume_def
      Let_def cleanUpAudio_released split: option.splits promise.splits)

lemma stopConversation_noop:
  assumes "status s = Idle" "sessionPromiseRef s = None"
    "sourcesRef s = []" "nextStartTimeRef s = 0" "mediaStreamRef s = None"
    "scriptProcessorRef s = None" "inputAudioContextRef s = None"
    "outputAudioContextRef s = None"
  shows "stopConversation s = s"
proof -
  have "s\<lparr> status := Idle \<rparr> = s"
    using assms(1) by (cases s) simp
  then show ?thesis
    using assms
    by (simp add: stopConversation_def stopConversation_call_def Let_def cleanUpAudio_idle)
qed

lemma listening_state_eq:
  "listening_state =
     initial\<lparr> status := Listening, mediaStreamRef := Some 0, inputAudioContextRef := Some 1,
              outputAudioContextRef := Some 2, sessionPromiseRef := Some (Resolves 4),
              scriptProcessorRef := Some 3 \<rparr>"
  by (simp add: listening_state_def onopen_def startConversation_def good_env_def initial_def)

lemma speaking_state_eq:
  "speaking_state =
     listening_state\<lparr> status := Speaking, sourcesRef := [0], nextStartTimeRef := 6,
                       allocated := 1, calls := [SourceStart 0 5] \<rparr>"
  by (simp add: speaking_state_def onmessage_def onmessage_audio_def
      onmessage_transcriptions_def chunk_def no_content_def one_second_def
      listening_state_eq initial_def js_def set_add_def Let_def)

subsection \<open>Facts about the codec\<close>

lemma join_bytes:
  "ucast (ucast w :: 8 word) OR push_bit 8 (ucast (ucast (drop_bit 8 w) :: 8 word))
     = (w :: 16 word)"
  by (rule bit_word_eqI) (auto simp: bit_simps)

lemma Int16Array_Uint8Array: "Int16Array (Uint8Array ws) = ws"
  by (induction ws) (simp_all add: join_bytes)

lemma even_length_Uint8Array: "even (length (Uint8Array ws))"
  by (induction ws) simp_all

lemma pcm_loop_map: "pcm_loop xs = map (\<lambda>x. ToInt16 (x * 32768)) xs"
  by (induction xs) simp_all

lemma binary_roundtrip: "binary_bytes (binary_string bs) = bs"
proof -
  have "ucast (ucast b :: 16 word) = b" for b :: "8 word"
    by (rule bit_word_eqI) (auto simp: bit_simps)
  then show ?thesis
    by (induction bs) (simp_all add: binary_bytes_def binary_string_def)
qed

lemma js_trunc_bounds:
  assumes "- 1 \<le> x" "x < 1"
  shows "- 32768 \<le> js_trunc (x * 32768) \<and> js_trunc (x * 32768) \<le> 32767
     \<and> \<bar>real_of_int (js_trunc (x * 32768)) - x * 32768\<bar> < 1"
  using assms unfolding js_trunc_def by (auto; linarith)

lemma sint_word_of_int_16:
  "sint (word_of_int k :: 16 word) = (k + 32768) mod 65536 - 32768"
  by (simp add: sint_uint signed_take_bit_eq_take_bit_shift take_bit_eq_mod
      uint_word_of_int mod_add_left_eq)

lemma sint_in_range:
  assumes "- 32768 \<le> k" "k \<le> 32767"
  shows "sint (word_of_int k :: 16 word) = k"
  using assms by (simp add: sint_word_of_int_16)

lemma sample_roundtrip:
  assumes "- 1 \<le> x" "x < 1"
  shows "\<bar>real_of_int (sint (ToInt16 (x * 32768))) / 32768 - x\<bar> < 1 / 32768"
proof -
  let ?k = "js_trunc (x * 32768)"
  have b: "- 32768 \<le> ?k" "?k \<le> 32767" "\<bar>real_of_int ?k - x * 32768\<bar> < 1"
    using js_trunc_bounds [OF assms] by simp_all
  have "sint (ToInt16 (x * 32768)) = ?k"
    by (simp add: ToInt16_def sint_in_range b)
  moreover have "\<bar>real_of_int ?k / 32768 - x\<bar> = \<bar>real_of_int ?k - x * 32768\<bar> / 32768"
    by (simp add: field_simps abs_if)
  ultimately show ?thesis
    using b(3) by simp
qed

subsection \<open>Facts about the scheduling of chunks\<close>












lemma deliver_monotone:
  assumes "\<forall>d dur. dec d = Gives dur \<longrightarrow> 0 \<le> dur"
    and "\<forall>x d. 0 \<le> d \<longrightarrow> x \<le> add x d"
    and "\<not> interrupts e"
  shows "nextStartTimeRef s \<le> nextStartTimeRef (deliver add enc dec e s)"
proof (cases e)
  case (Open p)
  then show ?thesis by (simp add: onopen_def Let_def split: option.splits)
next
  case (AudioProcess sp xs)
  then show ?thesis by (simp add: onaudioprocess_def split: promise.splits)
next
  case (Message now m)
  have tc: "nextStartTimeRef (onmessage_turnComplete s') = nextStartTimeRef s'" for s'
    by (simp add: onmessage_turnComplete_def Let_def)
  have tr: "nextStartTimeRef (onmessage_transcriptions m s') = nextStartTimeRef s'" for s'
    by (simp add: onmessage_transcriptions_def Let_def split: option.splits)
  have grow: "nextStartTimeRef s \<le> add (max (nextStartTimeRef s) now) dur"
    if "dec d = Gives dur" for d dur
  proof -
    have "0 \<le> dur" using assms(1) that by blast
    then have "max (nextStartTimeRef s) now \<le> add (max (nextStartTimeRef s) now) dur"
      using assms(2) by blast
    then show ?thesis by simp
  qed
  have au: "nextStartTimeRef s
      \<le> nextStartTimeRef (state_of (onmessage_audio add dec now m s))"
    using grow
    by (auto simp: onmessage_audio_def Let_def
          split: inlineData.splits option.splits attempt.splits)
  have "\<not> interrupted m" using assms(3) Message by simp
  then show ?thesis
    using au
    by (cases "onmessage_audio add dec now m s")
       (simp_all add: Message onmessage_def Let_def tc tr)
next
  case (Ended x)
  then show ?thesis by (simp add: ended_def Let_def)
qed

lemma run_monotone:
  assumes "\<forall>d dur. dec d = Gives dur \<longrightarrow> 0 \<le> dur"
    and "\<forall>x d. 0 \<le> d \<longrightarrow> x \<le> add x d"
    and "\<forall>e\<in>set es. \<not> interrupts e"
  shows "nextStartTimeRef s \<le> nextStartTimeRef (run add enc dec es s)"
  using assms(3)
proof (induction es arbitrary: s)
  case Nil
  show ?case by simp
next
  case (Cons e es)
  have "nextStartTimeRef s \<le> nextStartTimeRef (deliver add enc dec e s)"
    using deliver_monotone [OF assms(1) assms(2)] Cons.prems by simp
  also have "\<dots> \<le> nextStartTimeRef (run add enc dec es (deliver add enc dec e s))"
    using Cons.IH Cons.prems by simp
  finally show ?case by simp
qed

lemma interrupt_resets:
  assumes "interrupted m" "onmessage add dec now m s = Returned s'"
  shows "nextStartTimeRef s' = 0"
  using assms
  by (auto simp: onmessage_def Let_def stopAllPlayback_eq split: completion.splits)

subsection \<open>The claims\<close>




text \<open>
  C2. Processing a turn-complete signal appends to the transcript one entry for the
  user's buffer when its trimmed content is non-empty, then one for the assistant's
  buffer when its trimmed content is non-empty, in that order, and empties both buffers;
  when both trimmed buffers are empty the transcript is unchanged. The order of the two
  entries does not depend on which speaker's delta arrived last.
\<close>

theorem turn_complete_seals_user_then_assistant:
  "onmessage add dec now (no_content\<lparr> turnComplete := True \<rparr>) s =
     Returned (s\<lparr> transcript := transcript s
           @ (if trim (currentInputTranscriptionRef s) = [] then []
              else [\<lparr> speaker = You, text' = trim (currentInputTranscriptionRef s) \<rparr>])
           @ (if trim (currentOutputTranscriptionRef s) = [] then []
              else [\<lparr> speaker = Teacher, text' = trim (currentOutputTranscriptionRef s) \<rparr>]),
         currentInputTranscriptionRef := [], currentOutputTranscriptionRef := [] \<rparr>)
   \<and> run add enc dec [Message t1 (no_content\<lparr> inputTranscription := Some (Some a) \<rparr>),
                  Message t2 (no_content\<lparr> outputTranscription := Some (Some b) \<rparr>),
                  Message t3 (no_content\<lparr> turnComplete := True \<rparr>)] s
     = run add enc dec [Message u1 (no_content\<lparr> outputTranscription := Some (Some b) \<rparr>),
                    Message u2 (no_content\<lparr> inputTranscription := Some (Some a) \<rparr>),
                    Message u3 (no_content\<lparr> turnComplete := True \<rparr>)] s"
proof -
  have seal: "onmessage_turnComplete s =
     s\<lparr> transcript := transcript s
           @ (if trim (currentInputTranscriptionRef s) = [] then []
              else [\<lparr> speaker = You, text' = trim (currentInputTranscriptionRef s) \<rparr>])
           @ (if trim (currentOutputTranscriptionRef s) = [] then []
              else [\<lparr> speaker = Teacher, text' = trim (currentOutputTranscriptionRef s) \<rparr>]),
         currentInputTranscriptionRef := [], currentOutputTranscriptionRef := [] \<rparr>"
    by (simp add: onmessage_turnComplete_def Let_def)
  have signal: "onmessage add dec now (no_content\<lparr> turnComplete := True \<rparr>) s
      = Returned (onmessage_turnComplete s)"
    by (simp add: onmessage_def onmessage_audio_def onmessage_transcriptions_def
        no_content_def)
  have order: "run add enc dec [Message t1 (no_content\<lparr> inputTranscription := Some (Some a) \<rparr>),
                  Message t2 (no_content\<lparr> outputTranscription := Some (Some b) \<rparr>),
                  Message t3 (no_content\<lparr> turnComplete := True \<rparr>)] s
     = run add enc dec [Message u1 (no_content\<lparr> outputTranscription := Some (Some b) \<rparr>),
                    Message u2 (no_content\<lparr> inputTranscription := Some (Some a) \<rparr>),
                    Message u3 (no_content\<lparr> turnComplete := True \<rparr>)] s"
    by (simp add: onmessage_def onmessage_audio_def onmessage_transcriptions_def
        no_content_def text_of_def onmessage_turnComplete_def Let_def)
  show ?thesis
    using seal signal order by simp
qed

text \<open>
  The example of the spec: with the user's delta "Hi there" and the assistant's delta
  "Hello! How can I help?" in the buffers (the assistant's with surrounding blanks), the
  signal appends the two trimmed entries, the user's first.
\<close>

theorem turn_complete_seals_user_then_assistant_witness:
  "onmessage (+) one_second 0 (no_content\<lparr> turnComplete := True \<rparr>)
     (listening_state\<lparr> currentInputTranscriptionRef := js ''Hi there'',
                        currentOutputTranscriptionRef := js '' Hello! How can I help? '' \<rparr>)
   = Returned (listening_state\<lparr> transcript :=
        [\<lparr> speaker = You, text' = js ''Hi there'' \<rparr>,
         \<lparr> speaker = Teacher, text' = js ''Hello! How can I help?'' \<rparr>] \<rparr>)"
proof -
  have a: "trim (js ''Hi there'') = js ''Hi there''"
    by (simp add: trim_def js_def isWhiteSpace_def)
  have b: "trim (js '' Hello! How can I help? '') = js ''Hello! How can I help?''"
    by (simp add: trim_def js_def isWhiteSpace_def)
  have c: "js ''Hi there'' \<noteq> []" "js ''Hello! How can I help?'' \<noteq> []"
    by (simp_all add: js_def)
  show ?thesis
    using turn_complete_seals_user_then_assistant
      [of "(+)" one_second 0 "listening_state\<lparr> currentInputTranscriptionRef := js ''Hi there'',
                        currentOutputTranscriptionRef := js '' Hello! How can I help? '' \<rparr>"]
    by (simp add: a b c listening_state_eq initial_def)
qed

text \<open>
  C3. A transport error reported in status \<open>listening\<close>: \<open>onerror\<close> records the message
  and sets the status to \<open>error\<close>, then calls \<open>stopConversation\<close>, whose first statement
  sets the status to \<open>idle\<close>. The handler therefore ends in status \<open>idle\<close>, not
  \<open>error\<close>; the message stays recorded, the set of sources is empty, and the stream is
  released (its tracks stopped, the reference cleared).
\<close>

theorem onerror_ends_idle:
  "status (onerror e s) = Idle
   \<and> errorMessage (onerror e s) = js ''An error occurred: '' @ e @ js ''. Please try again.''
   \<and> sourcesRef (onerror e s) = [] \<and> mediaStreamRef (onerror e s) = None
   \<and> status listening_state = Listening
   \<and> status (onerror e listening_state) \<noteq> Error
   \<and> calls (onerror e listening_state)
       = [SessionClose 4, TracksStop 0, Disconnect 3, ContextClose 1, ContextClose 2]"
proof -
  have em: "errorMessage (cleanUpAudio s') = errorMessage s'" for s'
    by (simp add: cleanUpAudio_def stopAllPlayback_eq close_context_def Let_def
        split: option.splits)
  have a: "errorMessage (onerror e s)
      = js ''An error occurred: '' @ e @ js ''. Please try again.''"
    by (simp add: onerror_def stopConversation_def stopConversation_call_def
        stopConversation_resume_def Let_def em
        split: option.splits promise.splits)
  have b: "calls (onerror e listening_state)
      = [SessionClose 4, TracksStop 0, Disconnect 3, ContextClose 1, ContextClose 2]"
    by (simp add: onerror_def stopConversation_def stopConversation_call_def
        stopConversation_resume_def cleanUpAudio_def stopAllPlayback_eq
        close_context_def Let_def listening_state_eq initial_def)
  show ?thesis
    using a b by (simp add: onerror_def stopConversation_released listening_state_eq)
qed

text \<open>
  C4. After \<open>stopAllPlayback\<close> the set of sources is empty and \<open>nextStartTime\<close> is 0. A
  message that carries a chunk next (output context present, payload non-empty and
  decodable) starts its source at the clock reading, which is never negative for an
  \<open>AudioContext\<close>.
\<close>

theorem interrupt_then_enqueue:
  assumes "outputAudioContextRef s = Some c" "audioData m = Data d" "d \<noteq> []"
    "dec d = Gives dur" "0 \<le> now"
  shows "sourcesRef (stopAllPlayback s) = [] \<and> nextStartTimeRef (stopAllPlayback s) = 0
    \<and> (\<exists>s' rest. onmessage add dec now m (stopAllPlayback s) = Returned s'
          \<and> calls s' = calls (stopAllPlayback s) @ SourceStart (allocated s) now # rest)"
proof -
  have tc: "calls (onmessage_turnComplete s') = calls s'" for s'
    by (simp add: onmessage_turnComplete_def Let_def)
  have tr: "calls (onmessage_transcriptions m s') = calls s'" for s'
    by (simp add: onmessage_transcriptions_def Let_def split: option.splits)
  have au: "onmessage_audio add dec now m (stopAllPlayback s) =
      Returned ((stopAllPlayback s)\<lparr> status := Speaking, nextStartTimeRef := add now dur,
        allocated := Suc (allocated s),
        calls := calls (stopAllPlayback s) @ [SourceStart (allocated s) now],
        sourcesRef := [allocated s] \<rparr>)"
    using assms
    by (simp add: onmessage_audio_def stopAllPlayback_eq Let_def set_add_def max_def)
  show ?thesis
    by (simp add: onmessage_def au Let_def tc tr) (simp add: stopAllPlayback_eq tc tr)
qed

text \<open>
  While one source is playing (scheduled at 5, until 6), playback is interrupted and a
  chunk arrives at clock 5.5: it starts at 5.5.
\<close>

theorem interrupt_then_enqueue_witness:
  "outputAudioContextRef speaking_state = Some 2 \<and> audioData (chunk (js ''BBBB'')) = Data (js ''BBBB'')
   \<and> js ''BBBB'' \<noteq> [] \<and> one_second (js ''BBBB'') = Gives 1 \<and> (0 :: real) \<le> 11 / 2
   \<and> sourcesRef (stopAllPlayback speaking_state) = []
   \<and> nextStartTimeRef (stopAllPlayback speaking_state) = 0
   \<and> (\<exists>s' rest. onmessage (+) one_second (11 / 2) (chunk (js ''BBBB'')) (stopAllPlayback speaking_state)
           = Returned s'
         \<and> calls s' = calls (stopAllPlayback speaking_state) @ SourceStart 1 (11 / 2) # rest)"
proof -
  have h: "outputAudioContextRef speaking_state = Some 2"
    "audioData (chunk (js ''BBBB'')) = Data (js ''BBBB'')" "js ''BBBB'' \<noteq> []"
    "one_second (js ''BBBB'') = Gives 1" "(0 :: real) \<le> 11 / 2"
    by (simp_all add: speaking_state_eq listening_state_eq initial_def chunk_def
        no_content_def js_def one_second_def)
  have "allocated speaking_state = 1"
    by (simp add: speaking_state_eq)
  then show ?thesis
    using interrupt_then_enqueue
        [where dec = one_second and d = "js ''BBBB''" and add = "(+)", OF h] h
    by simp
qed

text \<open>
  C5 (as amended). The handler of an interruption signal stops every active source,
  empties the set and resets \<open>nextStartTime\<close> to 0; it leaves the status as it is, so a
  status \<open>speaking\<close> is still \<open>speaking\<close> when the handler returns. The status becomes
  \<open>listening\<close> when the \<open>ended\<close> notification of a source is delivered next.
\<close>

theorem interruption_stops_sources:
  "onmessage add dec now (no_content\<lparr> interrupted := True \<rparr>) s
     = Returned (s\<lparr> calls := calls s @ map SourceStop (sourcesRef s), sourcesRef := [],
                    nextStartTimeRef := 0 \<rparr>)
   \<and> status (state_of (onmessage add dec now (no_content\<lparr> interrupted := True \<rparr>) s)) = status s
   \<and> status (run add enc dec [Message now (no_content\<lparr> interrupted := True \<rparr>), Ended x] s)
       = Listening
   \<and> sourcesRef (run add enc dec [Message now (no_content\<lparr> interrupted := True \<rparr>), Ended x] s)
       = []"
proof -
  have a: "onmessage add dec now (no_content\<lparr> interrupted := True \<rparr>) s
      = Returned (stopAllPlayback s)"
    by (simp add: onmessage_def onmessage_audio_def onmessage_transcriptions_def
        no_content_def)
  show ?thesis
    by (simp add: a) (simp add: stopAllPlayback_eq ended_def set_delete_def)
qed

text \<open>
  The claim as stated fails: with one source playing and status \<open>speaking\<close>, the status
  is still \<open>speaking\<close> after the interruption signal has been handled. And when the status
  is \<open>speaking\<close> with no source at all (the only chunk so far failed to decode), the
  signal stops nothing, so that no \<open>ended\<close> notification follows it either.
\<close>

theorem interruption_leaves_speaking_counterexample:
  "status speaking_state = Speaking \<and> sourcesRef speaking_state = [0]
   \<and> status (state_of (onmessage (+) one_second 6 (no_content\<lparr> interrupted := True \<rparr>)
        speaking_state)) \<noteq> Listening
   \<and> status (state_of (onmessage (+) malformed 5 (chunk (js ''AAA'')) listening_state)) = Speaking
   \<and> allocated (state_of (onmessage (+) malformed 5 (chunk (js ''AAA'')) listening_state)) = 0
   \<and> status (run (+) binary_string malformed
        [Message 5 (chunk (js ''AAA'')), Message 6 (no_content\<lparr> interrupted := True \<rparr>)]
        listening_state) \<noteq> Listening
   \<and> calls (run (+) binary_string malformed
        [Message 5 (chunk (js ''AAA'')), Message 6 (no_content\<lparr> interrupted := True \<rparr>)]
        listening_state) = []"
  by (simp add: onmessage_def onmessage_audio_def onmessage_transcriptions_def no_content_def
      chunk_def malformed_def js_def stopAllPlayback_eq speaking_state_eq listening_state_eq
      initial_def Let_def)

text \<open>
  C6. While a session is live, \<open>nextStartTime\<close> never decreases over a run of events
  none of which is a message with the interruption flag; a message with the flag, handled
  to its end, leaves it at 0. Buffer durations are never negative. This holds for every
  addition \<open>add\<close> under which adding a non-negative duration does not give a smaller
  number, as is the case for the rounded addition of doubles, and in particular for exact
  addition.
\<close>

theorem nextStartTime_monotone:
  assumes "\<forall>d dur. dec d = Gives dur \<longrightarrow> 0 \<le> dur"
    and "\<forall>e\<in>set es. \<not> interrupts e"
  shows "((\<forall>x d. 0 \<le> d \<longrightarrow> x \<le> add x d)
          \<longrightarrow> nextStartTimeRef s \<le> nextStartTimeRef (run add enc dec es s))
    \<and> nextStartTimeRef s \<le> nextStartTimeRef (run (+) enc dec es s)
    \<and> (\<forall>now m s'. interrupted m \<and> onmessage add dec now m s = Returned s'
          \<longrightarrow> nextStartTimeRef s' = 0)"
proof -
  have exact: "\<forall>x d :: real. 0 \<le> d \<longrightarrow> x \<le> x + d"
    by simp
  have general: "(\<forall>x d. 0 \<le> d \<longrightarrow> x \<le> add x d)
      \<longrightarrow> nextStartTimeRef s \<le> nextStartTimeRef (run add enc dec es s)"
    using run_monotone [where add = add, OF assms(1) _ assms(2)] by blast
  have plain: "nextStartTimeRef s \<le> nextStartTimeRef (run (+) enc dec es s)"
    by (rule run_monotone [where add = "(+)", OF assms(1) exact assms(2)])
  show ?thesis
    using general plain interrupt_resets by blast
qed

theorem nextStartTime_monotone_witness:
  "(\<forall>d. one_second d = Gives 1)
   \<and> \<not> interrupts (Message 5 (chunk (js ''AAAA''))) \<and> \<not> interrupts (Ended 0)
   \<and> \<not> interrupts (Message 8 (chunk (js ''BBBB'')))
   \<and> nextStartTimeRef listening_state = 0
   \<and> nextStartTimeRef (run (+) binary_string one_second
        [Message 5 (chunk (js ''AAAA'')), Ended 0, Message 8 (chunk (js ''BBBB''))]
        listening_state) = 9
   \<and> nextStartTimeRef listening_state
       \<le> nextStartTimeRef (run (+) binary_string one_second
        [Message 5 (chunk (js ''AAAA'')), Ended 0, Message 8 (chunk (js ''BBBB''))]
        listening_state)
   \<and> nextStartTimeRef (state_of (onmessage (+) one_second 6
        (no_content\<lparr> interrupted := True \<rparr>) speaking_state)) = 0"
proof -
  have dec: "\<forall>d dur. one_second d = Gives dur \<longrightarrow> 0 \<le> dur"
    by (simp add: one_second_def)
  have mono: "\<forall>x d :: real. 0 \<le> d \<longrightarrow> x \<le> x + d"
    by simp
  have es: "\<forall>e\<in>set [Message 5 (chunk (js ''AAAA'')), Ended 0, Message 8 (chunk (js ''BBBB''))].
      \<not> interrupts e"
    by (simp add: chunk_def no_content_def)
  have r: "onmessage (+) one_second 6 (no_content\<lparr> interrupted := True \<rparr>) speaking_state
      = Returned (stopAllPlayback speaking_state)"
    by (simp add: onmessage_def onmessage_audio_def onmessage_transcriptions_def
        no_content_def)
  have nine: "nextStartTimeRef (run (+) binary_string one_second
        [Message 5 (chunk (js ''AAAA'')), Ended 0, Message 8 (chunk (js ''BBBB''))]
        listening_state) = 9"
    by (simp add: onmessage_def onmessage_audio_def onmessage_transcriptions_def
        chunk_def no_content_def one_second_def ended_def set_delete_def set_add_def
        listening_state_eq initial_def js_def Let_def)
  have zero: "nextStartTimeRef listening_state = 0"
    by (simp add: listening_state_eq initial_def)
  show ?thesis
    using nextStartTime_monotone [where enc = binary_string and s = listening_state
          and dec = one_second and add = "(+)", OF dec es]
      nextStartTime_monotone [where enc = binary_string and s = speaking_state
          and dec = one_second and add = "(+)", OF dec es,
        THEN conjunct2, THEN conjunct2, rule_format,
        of "no_content\<lparr> interrupted := True \<rparr>" 6 "stopAllPlayback speaking_state"]
      r nine zero mono
    by (simp add: one_second_def chunk_def no_content_def)
qed

text \<open>
  C7 (as amended). For samples in the half-open interval from -1 (included) to 1
  (excluded), and a text framing whose decoding inverts its encoding, decoding the
  transport encoding gives back as many samples, each within one 16-bit quantisation step
  (1/32768) of the original.
\<close>

theorem codec_roundtrip:
  assumes inv: "\<forall>bs. decode (encode bs) = bs"
    and rng: "\<forall>x\<in>set samples. - 1 \<le> x \<and> x < 1"
  shows "\<exists>out. fromTransportEncoding decode (toTransportEncoding encode samples) = Inr out
      \<and> length out = length samples
      \<and> (\<forall>i<length samples. \<bar>out ! i - samples ! i\<bar> < 1 / 32768)"
proof -
  let ?out = "map (\<lambda>x. real_of_int (sint (ToInt16 (x * 32768))) / 32768) samples"
  have "fromTransportEncoding decode (toTransportEncoding encode samples) = Inr ?out"
    using inv
    by (simp add: fromTransportEncoding_def toTransportEncoding_def even_length_Uint8Array
        Int16Array_Uint8Array pcm_loop_map comp_def)
  moreover have "\<forall>i<length samples. \<bar>?out ! i - samples ! i\<bar> < 1 / 32768"
    using rng sample_roundtrip by simp
  ultimately show ?thesis by simp
qed

theorem codec_roundtrip_witness:
  "(\<forall>bs. binary_bytes (binary_string bs) = bs)
   \<and> - 1 \<le> (1 / 2 :: real) \<and> (1 / 2 :: real) < 1 \<and> - 1 \<le> (- 1 :: real) \<and> (- 1 :: real) < 1
   \<and> (\<exists>out. fromTransportEncoding binary_bytes (toTransportEncoding binary_string [1 / 2, - 1])
           = Inr out
         \<and> length out = 2
         \<and> \<bar>out ! 0 - 1 / 2\<bar> < 1 / 32768 \<and> \<bar>out ! 1 - (- 1)\<bar> < 1 / 32768)"
proof -
  have inv: "\<forall>bs. binary_bytes (binary_string bs) = bs"
    by (simp add: binary_roundtrip)
  have rng: "\<forall>x\<in>set [1 / 2, - 1 :: real]. - 1 \<le> x \<and> x < 1"
    by simp
  from codec_roundtrip [OF inv rng] obtain out where
    o: "fromTransportEncoding binary_bytes (toTransportEncoding binary_string [1 / 2, - 1])
          = Inr out"
      "length out = length [1 / 2, - 1 :: real]"
      "\<forall>i<length [1 / 2, - 1 :: real]. \<bar>out ! i - [1 / 2, - 1] ! i\<bar> < 1 / 32768"
    by blast
  have "\<bar>out ! 0 - 1 / 2\<bar> < 1 / 32768" "\<bar>out ! 1 - (- 1)\<bar> < 1 / 32768"
    using o(3) [rule_format, of 0] o(3) [rule_format, of 1] by simp_all
  then show ?thesis
    using inv o(1) o(2) by auto
qed

text \<open>
  The claim as stated fails at the sample 1.0, which lies in [-1,1]: its encoding
  decodes to -1.0, two units away from the original.
\<close>

theorem codec_roundtrip_counterexample:
  "fromTransportEncoding binary_bytes (toTransportEncoding binary_string [1]) = Inr [- 1]
   \<and> \<not> \<bar>(- 1 :: real) - 1\<bar> < 1 / 32768"
  by (simp add: fromTransportEncoding_def toTransportEncoding_def binary_bytes_def
      binary_string_def ToInt16_def js_trunc_def)

text \<open>
  C8. The PCM step multiplies each sample by 32768 and truncates the product towards
  zero to a signed 16-bit integer with no clamping: for every sample the stored value is
  the truncated product modulo \<open>2^16\<close>, read in two's complement. At the sample 1.0 the
  product 32768 is stored as -32768, not as the saturated 32767; 1.5 is stored as
  -16384 and -1.5 as 16384, while 0.5 and -1.0 are stored as 16384 and -32768.
\<close>

theorem pcm_wraps_without_clamping:
  "pcm_loop xs
     = map (\<lambda>x. word_of_int (if x * 32768 < 0 then \<lceil>x * 32768\<rceil> else \<lfloor>x * 32768\<rfloor>)) xs
   \<and> sint (ToInt16 y) = ((if y < 0 then \<lceil>y\<rceil> else \<lfloor>y\<rfloor>) + 32768) mod 65536 - 32768
   \<and> map sint (pcm_loop [1, 3 / 2, - 3 / 2, 1 / 2, - 1])
       = [- 32768, - 16384, 16384, 16384, - 32768]
   \<and> map sint (pcm_loop [1]) \<noteq> [32767]"
proof -
  have t: "js_trunc z = (if z < 0 then \<lceil>z\<rceil> else \<lfloor>z\<rfloor>)" for z
    by (simp add: js_trunc_def ceiling_def)
  have loop: "pcm_loop xs
      = map (\<lambda>x. word_of_int (if x * 32768 < 0 then \<lceil>x * 32768\<rceil> else \<lfloor>x * 32768\<rfloor>)) xs"
    by (induction xs) (simp_all add: ToInt16_def t)
  have stored: "sint (ToInt16 z) = ((if z < 0 then \<lceil>z\<rceil> else \<lfloor>z\<rfloor>) + 32768) mod 65536 - 32768"
    for z
    unfolding ToInt16_def t by (rule sint_word_of_int_16)
  have stored_at: "map sint (pcm_loop [1, 3 / 2, - 3 / 2, 1 / 2, - 1])
      = [- 32768, - 16384, 16384, 16384, - 32768]"
    by (simp add: stored)
  have "map sint (pcm_loop [1]) = [- 32768]"
    by (simp add: stored)
  then show ?thesis
    using loop stored [of y] stored_at by simp
qed

text \<open>
  C9. \<open>stopConversation\<close> clears \<open>sessionPromiseRef\<close> only after its \<open>await\<close>. Two calls
  in succession therefore both find the promise and both close the session: from every
  state with a resolved session promise the log gains two \<open>SessionClose\<close> calls. The
  status is \<open>idle\<close> when the calls are done, but the \<open>ended\<close> notification of a source
  that the cleanup stopped sets it to \<open>listening\<close> afterwards. A second call that begins
  after the first has finished changes nothing.
\<close>

theorem stopConversation_twice_closes_twice:
  "count_list (calls (stopConversation_twice (s\<lparr> sessionPromiseRef := Some (Resolves k) \<rparr>)))
       (SessionClose k)
     = count_list (calls s) (SessionClose k) + 2
   \<and> calls (stopConversation_twice listening_state)
       = [SessionClose 4, TracksStop 0, Disconnect 3, ContextClose 1, ContextClose 2,
          SessionClose 4]
   \<and> calls (stopConversation listening_state)
       = [SessionClose 4, TracksStop 0, Disconnect 3, ContextClose 1, ContextClose 2]
   \<and> status (stopConversation_twice s) = Idle
   \<and> status (stopConversation speaking_state) = Idle
   \<and> status (ended 0 (stopConversation speaking_state)) = Listening
   \<and> stopConversation (stopConversation s) = stopConversation s"
proof -
  have stops: "count_list (map SourceStop xs) (SessionClose k) = 0" for xs
    by (induction xs) simp_all
  have clean: "count_list (calls (cleanUpAudio s')) (SessionClose k)
      = count_list (calls s') (SessionClose k)" for s'
    by (simp add: cleanUpAudio_def stopAllPlayback_eq close_context_def Let_def stops
        split: option.splits)
  have keep: "sessionPromiseRef (cleanUpAudio s') = sessionPromiseRef s'"
    "status (cleanUpAudio s') = status s'" for s'
    using cleanUpAudio_released [of s'] by simp_all
  have twice: "count_list (calls (stopConversation_twice
        (s\<lparr> sessionPromiseRef := Some (Resolves k) \<rparr>))) (SessionClose k)
      = count_list (calls s) (SessionClose k) + 2"
    by (simp add: stopConversation_twice_def stopConversation_call_def
        stopConversation_resume_def Let_def clean)
  have resumed: "status (stopConversation_resume p s') = status s'" for p s'
    by (simp add: stopConversation_resume_def Let_def keep split: promise.splits)
  have idle: "status (stopConversation_twice s) = Idle"
    by (simp add: stopConversation_twice_def stopConversation_call_def Let_def keep resumed
        split: option.splits)
  have log2: "calls (stopConversation_twice listening_state)
      = [SessionClose 4, TracksStop 0, Disconnect 3, ContextClose 1, ContextClose 2,
         SessionClose 4]"
    by (simp add: stopConversation_twice_def stopConversation_call_def
        stopConversation_resume_def cleanUpAudio_def stopAllPlayback_eq close_context_def
        Let_def listening_state_eq initial_def)
  have log1: "calls (stopConversation listening_state)
      = [SessionClose 4, TracksStop 0, Disconnect 3, ContextClose 1, ContextClose 2]"
    by (simp add: stopConversation_def stopConversation_call_def
        stopConversation_resume_def cleanUpAudio_def stopAllPlayback_eq close_context_def
        Let_def listening_state_eq initial_def)
  have after: "status (ended 0 (stopConversation speaking_state)) = Listening"
    by (simp add: ended_def set_delete_def stopConversation_released)
  have seq: "stopConversation (stopConversation s) = stopConversation s"
    by (rule stopConversation_noop) (simp_all add: stopConversation_released)
  show ?thesis
    using twice idle log2 log1 after seq by (simp add: stopConversation_released)
qed

text \<open>
  C10. When \<open>startConversation\<close> fails after the microphone stream has been acquired
  (in \<open>new GoogleGenAI\<close>, in either \<open>new AudioContext\<close>, or in \<open>connect\<close>), the state it
  leaves differs from the state before the call only in the cleared transcript, the
  recorded stream and contexts created so far, the error message and the status
  \<open>error\<close>: no call is made on any resource (the stream's tracks are not stopped, no
  context is closed), and \<open>sessionPromiseRef\<close> is not written.
\<close>

theorem failed_start_keeps_resources:
  "startConversation \<lparr> getUserMedia = Gives stream, newGoogleGenAI = Throws e,
       newInputAudioContext = ic, newOutputAudioContext = oc, connect = cn \<rparr> s
     = s\<lparr> transcript := [], mediaStreamRef := Some stream,
           errorMessage := js ''Failed to start: '' @ e
              @ js ''. Make sure microphone access is allowed.'',
           status := Error \<rparr>
   \<and> startConversation \<lparr> getUserMedia = Gives stream, newGoogleGenAI = Gives (),
       newInputAudioContext = Throws e, newOutputAudioContext = oc, connect = cn \<rparr> s
     = s\<lparr> transcript := [], mediaStreamRef := Some stream,
           errorMessage := js ''Failed to start: '' @ e
              @ js ''. Make sure microphone access is allowed.'',
           status := Error \<rparr>
   \<and> startConversation \<lparr> getUserMedia = Gives stream, newGoogleGenAI = Gives (),
       newInputAudioContext = Gives i, newOutputAudioContext = Throws e, connect = cn \<rparr> s
     = s\<lparr> transcript := [], mediaStreamRef := Some stream, inputAudioContextRef := Some i,
           errorMessage := js ''Failed to start: '' @ e
              @ js ''. Make sure microphone access is allowed.'',
           status := Error \<rparr>
   \<and> startConversation \<lparr> getUserMedia = Gives stream, newGoogleGenAI = Gives (),
       newInputAudioContext = Gives i, newOutputAudioContext = Gives o', connect = Throws e \<rparr> s
     = s\<lparr> transcript := [], mediaStreamRef := Some stream, inputAudioContextRef := Some i,
           outputAudioContextRef := Some o',
           errorMessage := js ''Failed to start: '' @ e
              @ js ''. Make sure microphone access is allowed.'',
           status := Error \<rparr>
   \<and> calls (startConversation \<lparr> getUserMedia = Gives stream, newGoogleGenAI = Gives (),
       newInputAudioContext = Gives i, newOutputAudioContext = Gives o', connect = Throws e \<rparr> s)
     = calls s
   \<and> sessionPromiseRef (startConversation \<lparr> getUserMedia = Gives stream,
       newGoogleGenAI = Gives (), newInputAudioContext = Gives i,
       newOutputAudioContext = Gives o', connect = Throws e \<rparr> s)
     = sessionPromiseRef s"
  by (simp add: startConversation_def start_catch_def)

end
